theory Spec2Isabelle
  imports Complex_Main
begin

section \<open>Moodify: the prediction page\<close>

text \<open>
  The repository holds three copies of one React page:
  \<^item> the live page (\<^verbatim>\<open>src/pages/index.tsx\<close>, lines 1-343), which validates and
    normalises the backend's answer;
  \<^item> the mock page (\<^verbatim>\<open>src/pages/index.tsx\<close>, lines 344-634), which draws a canned
    answer after a timer and has sample-mood chips;
  \<^item> the premium page (\<^verbatim>\<open>src/unnamed/part_000\<close>), which stores the backend's answer
    as it comes.

  Each \<^verbatim>\<open>useState\<close> cell is a field of a record; an event handler is a function from
  the state to the new state and the commands it issues (a network request, a timer,
  a focus call); the awaited part of \<^verbatim>\<open>analyze\<close> is a second function that takes
  what the awaited promise delivered. Exceptions are values of a sum type.

  Strings are \<^typ>\<open>string\<close>: a character is a code point below 256. Numbers are
  reals extended by the two infinities and NaN; rounding to binary floating point is
  not modelled (division by 4 is exact in binary floating point except at underflow).
  \<^verbatim>\<open>console.error\<close> calls and the animation layer are left out.
\<close>

subsection \<open>Strings\<close>

text \<open>
  \<^verbatim>\<open>String.prototype.trim\<close> removes white space and line terminators from both
  ends. Below code point 256 these are TAB, LF, VT, FF, CR, SPACE and NBSP.
\<close>

definition is_ws :: "char \<Rightarrow> bool" where
  "is_ws c \<longleftrightarrow> c \<in> {CHR 0x09, CHR 0x0A, CHR 0x0B, CHR 0x0C, CHR 0x0D, CHR 0x20, CHR 0xA0}"

definition trimStart :: "string \<Rightarrow> string" where
  "trimStart s = dropWhile is_ws s"

definition trim :: "string \<Rightarrow> string" where
  "trim s = rev (dropWhile is_ws (rev (dropWhile is_ws s)))"

text \<open>
  \<^verbatim>\<open>String.prototype.toLowerCase\<close> below code point 256: the letters A-Z and the
  Latin-1 capitals U+00C0-U+00DE (without the multiplication sign U+00D7) move up by 32.
\<close>

definition is_upper :: "char \<Rightarrow> bool" where
  "is_upper c \<longleftrightarrow>
     (let n = (of_char c :: nat)
      in (65 \<le> n \<and> n \<le> 90) \<or> (192 \<le> n \<and> n \<le> 222 \<and> n \<noteq> 215))"

definition lower_char :: "char \<Rightarrow> char" where
  "lower_char c = (if is_upper c then char_of ((of_char c :: nat) + 32) else c)"

definition toLowerCase :: "string \<Rightarrow> string" where
  "toLowerCase s = map lower_char s"

text \<open>The decimal text of a natural number, as a template literal prints a status code.\<close>

definition digit_char :: "nat \<Rightarrow> char" where
  "digit_char d = char_of (48 + d)"

fun show_nat :: "nat \<Rightarrow> string" where
  "show_nat n = (if n < 10 then [digit_char n] else show_nat (n div 10) @ [digit_char (n mod 10)])"

declare show_nat.simps [simp del]

subsection \<open>Numbers and JSON values\<close>

datatype jsnum = NaN | NegInf | Fin real | PosInf

text \<open>\<^verbatim>\<open>x / 4\<close> and \<^verbatim>\<open>isNaN(x)\<close>.\<close>

fun quarter :: "jsnum \<Rightarrow> jsnum" where
  "quarter NaN = NaN"
| "quarter NegInf = NegInf"
| "quarter (Fin x) = Fin (x / 4)"
| "quarter PosInf = PosInf"

definition isNaN :: "jsnum \<Rightarrow> bool" where
  "isNaN x \<longleftrightarrow> x = NaN"

text \<open>
  What \<^verbatim>\<open>res.json()\<close> delivers. An object is the list of its own properties;
  a key is looked up from the front.
\<close>

datatype json =
    JNull
  | JBool bool
  | JNum jsnum
  | JStr string
  | JArr "json list"
  | JObj "(string \<times> json) list"

text \<open>
  What a \<^verbatim>\<open>throw\<close> or a rejected promise carries: an \<^verbatim>\<open>Error\<close> object with its
  message, a bare string, or any other value.
\<close>

datatype thrown = ErrorObj string | StringVal string | OtherVal

text \<open>
  The parts of the JavaScript engine that the page calls and whose results the source
  does not fix: \<^verbatim>\<open>parseFloat\<close> on a value that is not a number (it converts the
  value to a string first, which may throw), and the messages of the two
  \<^verbatim>\<open>TypeError\<close>s the engine can raise inside the normaliser.
\<close>

record engine =
  parseFloat :: "json \<Rightarrow> thrown + jsnum"
  null_read_msg :: string
  not_callable_msg :: string

text \<open>
  \<^verbatim>\<open>data.mood\<close> and \<^verbatim>\<open>data.prediction\<close> on a value other than \<^verbatim>\<open>null\<close>:
  \<^const>\<open>None\<close> is \<^verbatim>\<open>undefined\<close>. Only objects have such a property (no
  prototype defines \<^verbatim>\<open>mood\<close>, \<^verbatim>\<open>prediction\<close> or \<^verbatim>\<open>score\<close>).
\<close>

fun get_prop :: "json \<Rightarrow> string \<Rightarrow> json option" where
  "get_prop (JObj kvs) k = map_of kvs k"
| "get_prop _ k = None"

text \<open>JavaScript truthiness of a property read (\<^verbatim>\<open>!x\<close> is its negation).\<close>

fun truthy :: "json option \<Rightarrow> bool" where
  "truthy None = False"
| "truthy (Some JNull) = False"
| "truthy (Some (JBool b)) = b"
| "truthy (Some (JNum x)) = (x \<noteq> NaN \<and> x \<noteq> Fin 0)"
| "truthy (Some (JStr s)) = (s \<noteq> [])"
| "truthy (Some (JArr xs)) = True"
| "truthy (Some (JObj kvs)) = True"

subsection \<open>The response normaliser of the live page\<close>

record PredictionResult =
  mood :: string
  score :: jsnum

text \<open>
  Lines 66-69 of \<^verbatim>\<open>index.tsx\<close>: a number is divided by 4, anything else goes
  through \<^verbatim>\<open>parseFloat\<close> first.
\<close>

definition to_score :: "engine \<Rightarrow> json \<Rightarrow> thrown + jsnum" where
  "to_score eng prediction =
     (case prediction of
        JNum x \<Rightarrow> Inr (quarter x)
      | _ \<Rightarrow> (case parseFloat eng prediction of
                 Inl e \<Rightarrow> Inl e
               | Inr x \<Rightarrow> Inr (quarter x)))"

text \<open>
  Lines 60-78 of \<^verbatim>\<open>index.tsx\<close>, from the parsed body to the value handed to
  \<^verbatim>\<open>setResult\<close>. Reading \<^verbatim>\<open>data.mood\<close> on \<^verbatim>\<open>null\<close> and calling
  \<^verbatim>\<open>toLowerCase\<close> on a mood that is not a string raise a \<^verbatim>\<open>TypeError\<close>.
\<close>

definition normalize_response :: "engine \<Rightarrow> json \<Rightarrow> thrown + PredictionResult" where
  "normalize_response eng data =
     (if data = JNull then Inl (ErrorObj (null_read_msg eng))
      else if \<not> truthy (get_prop data ''mood'') \<or> get_prop data ''prediction'' = None
      then Inl (ErrorObj ''Unexpected response format from backend'')
      else
        (case get_prop data ''prediction'' of
           None \<Rightarrow> Inl (ErrorObj ''Unexpected response format from backend'')
         | Some prediction \<Rightarrow>
             (case to_score eng prediction of
                Inl e \<Rightarrow> Inl e
              | Inr sc \<Rightarrow>
                  if isNaN sc then Inl (ErrorObj ''Invalid prediction value'')
                  else
                    (case get_prop data ''mood'' of
                       Some (JStr m) \<Rightarrow> Inr \<lparr>mood = toLowerCase m, score = sc\<rparr>
                     | _ \<Rightarrow> Inl (ErrorObj (not_callable_msg eng))))))"

subsection \<open>The state of a page and the commands a handler issues\<close>

text \<open>
  The five \<^verbatim>\<open>useState\<close> cells shared by the three pages (\<^verbatim>\<open>text\<close> is named
  \<open>input_text\<close> here). The type of a stored result is a parameter: the live and
  the mock page store a \<^typ>\<open>PredictionResult\<close>, the premium page stores the parsed
  body whatever it is.
\<close>

record 'r view =
  input_text :: string
  result :: "'r option"
  loading :: bool
  error :: string
  moodColor :: string

definition initial :: "'r view" where
  "initial =
     \<lparr>input_text = [], result = None, loading = False, error = [],
      moodColor = ''from-blue-100 to-purple-100''\<rparr>"

text \<open>
  What a handler asks of the browser: the POST to \<^verbatim>\<open>/predict\<close> with the text it
  sends, a timer, \<^verbatim>\<open>textareaRef.current.focus()\<close>, \<^verbatim>\<open>e.preventDefault()\<close>.
\<close>

datatype cmd = Fetch string | SetTimeout nat | FocusTextarea | PreventDefault

text \<open>Lines 41-50 of \<^verbatim>\<open>index.tsx\<close> (50-60 of the premium page): up to the \<^verbatim>\<open>await\<close>.\<close>

definition analyze_begin :: "('r, 'z) view_scheme \<Rightarrow> ('r, 'z) view_scheme \<times> cmd list" where
  "analyze_begin v = (v\<lparr>loading := True, error := [], result := None\<rparr>, [Fetch (input_text v)])"

text \<open>
  \<^verbatim>\<open>handleKeyDown\<close>, the same text in the three pages; \<open>start\<close> is the page's
  \<^verbatim>\<open>analyze\<close> up to its \<^verbatim>\<open>await\<close>.
\<close>

definition handleKeyDown ::
  "(('r, 'z) view_scheme \<Rightarrow> ('r, 'z) view_scheme \<times> cmd list) \<Rightarrow> string \<Rightarrow> bool \<Rightarrow>
   ('r, 'z) view_scheme \<Rightarrow> ('r, 'z) view_scheme \<times> cmd list" where
  "handleKeyDown start key shiftKey v =
     (if key = ''Enter'' \<and> \<not> shiftKey then
        (if trim (input_text v) \<noteq> [] \<and> \<not> loading v
         then (fst (start v), PreventDefault # snd (start v))
         else (v, [PreventDefault]))
      else (v, []))"

text \<open>
  \<^verbatim>\<open>resetForm\<close> (live page 106-113, premium page 83-90); \<open>ref\<close> says whether
  \<^verbatim>\<open>textareaRef.current\<close> is set.
\<close>

definition resetForm :: "bool \<Rightarrow> ('r, 'z) view_scheme \<Rightarrow> ('r, 'z) view_scheme \<times> cmd list" where
  "resetForm ref v =
     (v\<lparr>input_text := [], result := None, error := []\<rparr>, if ref then [FocusTextarea] else [])"

subsection \<open>What the network delivers\<close>

text \<open>
  A response with what \<^verbatim>\<open>res.text()\<close> and \<^verbatim>\<open>res.json()\<close> deliver when
  awaited (each may reject); \<^verbatim>\<open>res.ok\<close> is a status from 200 to 299.
\<close>

record response =
  status :: nat
  statusText :: string
  body_text :: "thrown + string"
  body_json :: "thrown + json"

definition ok :: "response \<Rightarrow> bool" where
  "ok res \<longleftrightarrow> 200 \<le> status res \<and> status res \<le> 299"

datatype fetch_outcome = Rejected thrown | Resolved response

subsection \<open>The live page\<close>


definition moodColors :: "(string \<times> string) list" where
  "moodColors =
     [(''mildly positive'', ''from-yellow-300 to-yellow-500''),
      (''mildly negative'', ''from-blue-300 to-blue-500''),
      (''positive'', ''from-green-300 to-green-500''),
      (''negative'', ''from-red-300 to-red-500''),
      (''neutral'', ''from-gray-300 to-gray-500'')]"

text \<open>
  The two lookups, by the key they are given: \<^verbatim>\<open>moodColors[k] || "from-blue-100 to-purple-100"\<close>
  and \<^verbatim>\<open>moodEmojis[k] || "\<dots>"\<close> (an emoji is its code point). The tables are their
  own properties; keys inherited from \<^verbatim>\<open>Object.prototype\<close> are not modelled.
\<close>

definition color_for :: "string \<Rightarrow> string" where
  "color_for k = (case map_of moodColors k of Some c \<Rightarrow> c | None \<Rightarrow> ''from-blue-100 to-purple-100'')"


text \<open>The keys the page hands to the two tables for a stored result (lines 36 and 254).\<close>

definition color_key :: "PredictionResult \<Rightarrow> string" where
  "color_key r = mood r"


text \<open>The effect of lines 34-38, run after a render in which \<^verbatim>\<open>result\<close> is new.\<close>

definition useEffect_result :: "PredictionResult view \<Rightarrow> PredictionResult view" where
  "useEffect_result v =
     (case result v of
        None \<Rightarrow> v
      | Some r \<Rightarrow> if mood r \<noteq> [] then v\<lparr>moodColor := color_for (color_key r)\<rparr> else v)"

text \<open>Lines 83-89: the message the \<^verbatim>\<open>catch\<close> block shows.\<close>

definition catch_message :: "thrown \<Rightarrow> string" where
  "catch_message err =
     (case err of
        ErrorObj m \<Rightarrow> m
      | StringVal s \<Rightarrow> s
      | OtherVal \<Rightarrow> ''Something went wrong while predicting mood. Please try again.'')"

text \<open>Lines 46-78: the \<^verbatim>\<open>try\<close> block from the settled \<^verbatim>\<open>fetch\<close> on.\<close>

fun try_analyze :: "engine \<Rightarrow> fetch_outcome \<Rightarrow> thrown + PredictionResult" where
  "try_analyze eng (Rejected e) = Inl e"
| "try_analyze eng (Resolved res) =
     (if \<not> ok res then
        (case body_text res of
           Inl e \<Rightarrow> Inl e
         | Inr errorText \<Rightarrow>
             Inl (ErrorObj (''Backend error: '' @ show_nat (status res) @ '' - '' @
                            (if errorText \<noteq> [] then errorText else statusText res))))
      else
        (case body_json res of
           Inl e \<Rightarrow> Inl e
         | Inr data \<Rightarrow> normalize_response eng data))"

text \<open>Lines 45-94 after the \<^verbatim>\<open>await\<close>: \<^verbatim>\<open>try\<close>, \<^verbatim>\<open>catch\<close>, \<^verbatim>\<open>finally\<close>.\<close>

definition analyze_settle ::
  "engine \<Rightarrow> fetch_outcome \<Rightarrow> PredictionResult view \<Rightarrow> PredictionResult view" where
  "analyze_settle eng outcome v =
     (case try_analyze eng outcome of
        Inr r \<Rightarrow> v\<lparr>result := Some r\<rparr>
      | Inl err \<Rightarrow> v\<lparr>error := catch_message err\<rparr>)\<lparr>loading := False\<rparr>"

text \<open>One whole call of \<^verbatim>\<open>analyze\<close> with the render that follows it.\<close>

definition analyze :: "engine \<Rightarrow> fetch_outcome \<Rightarrow> PredictionResult view \<Rightarrow> PredictionResult view" where
  "analyze eng outcome v = useEffect_result (analyze_settle eng outcome (fst (analyze_begin v)))"

text \<open>
  The live page as a machine. The events are what the user and the network can do:
  typing, a key in the textarea, the three buttons, and the awaited promise settling.
  A control does nothing where the page disables or hides it: the textarea is disabled
  while loading (line 159), the submit button while loading or while the trimmed text is
  empty (line 173), "Try again" is rendered only with an error (line 211) and
  "Analyze Another" only with a result (line 233). \<open>awaiting\<close> counts the calls of
  \<^verbatim>\<open>analyze\<close> whose \<^verbatim>\<open>fetch\<close> has not settled, \<open>sent\<close> lists the texts posted.
\<close>

datatype event =
    Change string
  | KeyDown string bool
  | ClickPredict
  | ClickTryAgain
  | ClickAnalyzeAnother
  | Settle fetch_outcome

record page =
  ui :: "PredictionResult view"
  awaiting :: nat
  sent :: "string list"

definition page0 :: page where
  "page0 = \<lparr>ui = initial, awaiting = 0, sent = []\<rparr>"

fun fetches :: "cmd list \<Rightarrow> string list" where
  "fetches [] = []"
| "fetches (Fetch t # cs) = t # fetches cs"
| "fetches (c # cs) = fetches cs"

text \<open>
  The render after a handler: the effect runs when \<^verbatim>\<open>result\<close> has changed. (A stored
  result is a fresh object and every call clears the cell first, so on the states the
  page reaches the comparison by value agrees with React's comparison by identity.)
\<close>

definition rendered :: "PredictionResult view \<Rightarrow> PredictionResult view \<Rightarrow> PredictionResult view" where
  "rendered before after = (if result after = result before then after else useEffect_result after)"

fun react :: "engine \<Rightarrow> event \<Rightarrow> page \<Rightarrow> PredictionResult view \<times> cmd list" where
  "react eng (Change t) p =
     (if loading (ui p) then (ui p, []) else ((ui p)\<lparr>input_text := t\<rparr>, []))"
| "react eng (KeyDown key shiftKey) p =
     (if loading (ui p) then (ui p, []) else handleKeyDown analyze_begin key shiftKey (ui p))"
| "react eng ClickPredict p =
     (if loading (ui p) \<or> trim (input_text (ui p)) = [] then (ui p, []) else analyze_begin (ui p))"
| "react eng ClickTryAgain p =
     (if error (ui p) \<noteq> [] then resetForm True (ui p) else (ui p, []))"
| "react eng ClickAnalyzeAnother p =
     (if result (ui p) \<noteq> None then resetForm True (ui p) else (ui p, []))"
| "react eng (Settle outcome) p =
     (if awaiting p = 0 then (ui p, []) else (analyze_settle eng outcome (ui p), []))"

fun settled :: "event \<Rightarrow> nat" where
  "settled (Settle outcome) = 1"
| "settled e = 0"

definition step :: "engine \<Rightarrow> event \<Rightarrow> page \<Rightarrow> page" where
  "step eng e p =
     \<lparr>ui = rendered (ui p) (fst (react eng e p)),
      awaiting = awaiting p - settled e + length (fetches (snd (react eng e p))),
      sent = sent p @ fetches (snd (react eng e p))\<rparr>"

definition run :: "engine \<Rightarrow> event list \<Rightarrow> page" where
  "run eng es = foldl (\<lambda>p e. step eng e p) page0 es"

subsection \<open>The premium page\<close>

text \<open>
  Lines 56-65 of \<^verbatim>\<open>part_000\<close>: the body is stored as parsed, with no check; a body
  \<^verbatim>\<open>null\<close> stores \<^verbatim>\<open>null\<close>.
\<close>

fun try_analyze_premium :: "fetch_outcome \<Rightarrow> thrown + json" where
  "try_analyze_premium (Rejected e) = Inl e"
| "try_analyze_premium (Resolved res) =
     (if \<not> ok res then Inl (ErrorObj ''Failed to analyze mood'')
      else (case body_json res of Inl e \<Rightarrow> Inl e | Inr data \<Rightarrow> Inr data))"

definition analyze_settle_premium :: "fetch_outcome \<Rightarrow> json view \<Rightarrow> json view" where
  "analyze_settle_premium outcome v =
     (case try_analyze_premium outcome of
        Inr data \<Rightarrow> v\<lparr>result := (if data = JNull then None else Some data)\<rparr>
      | Inl err \<Rightarrow> v\<lparr>error := ''Something went wrong. Please try again.''\<rparr>)\<lparr>loading := False\<rparr>"

subsection \<open>The mock page\<close>

record mock_view = "PredictionResult view" +
  activeMood :: string

definition initial_mock :: mock_view where
  "initial_mock =
     \<lparr>input_text = [], result = None, loading = False, error = [],
      moodColor = ''from-blue-100 to-purple-100'', activeMood = []\<rparr>"

definition moodColors_mock :: "(string \<times> string) list" where
  "moodColors_mock =
     [(''happy'', ''from-yellow-300 to-yellow-500''),
      (''sad'', ''from-blue-300 to-blue-500''),
      (''angry'', ''from-red-400 to-red-600''),
      (''anxious'', ''from-purple-400 to-purple-600''),
      (''excited'', ''from-orange-300 to-orange-500''),
      (''relaxed'', ''from-green-300 to-green-500''),
      (''neutral'', ''from-gray-300 to-gray-500''),
      (''surprised'', ''from-pink-300 to-pink-500''),
      (''tired'', ''from-indigo-300 to-indigo-500''),
      (''loved'', ''from-rose-300 to-rose-500''),
      (''playful'', ''from-cyan-300 to-cyan-500''),
      (''confident'', ''from-teal-300 to-teal-500'')]"

definition color_for_mock :: "string \<Rightarrow> string" where
  "color_for_mock k =
     (case map_of moodColors_mock k of Some c \<Rightarrow> c | None \<Rightarrow> ''from-blue-100 to-purple-100'')"

definition mockResponses :: "PredictionResult list" where
  "mockResponses =
     [\<lparr>mood = ''happy'', score = Fin (92 / 100)\<rparr>,
      \<lparr>mood = ''sad'', score = Fin (87 / 100)\<rparr>,
      \<lparr>mood = ''excited'', score = Fin (95 / 100)\<rparr>,
      \<lparr>mood = ''relaxed'', score = Fin (89 / 100)\<rparr>,
      \<lparr>mood = ''anxious'', score = Fin (91 / 100)\<rparr>]"

definition sample_moods :: "string list" where
  "sample_moods = [''happy'', ''excited'', ''relaxed'', ''playful'', ''confident'']"

text \<open>The effect of lines 391-396.\<close>

definition useEffect_mock :: "mock_view \<Rightarrow> mock_view" where
  "useEffect_mock v =
     (case result v of
        None \<Rightarrow> v
      | Some r \<Rightarrow>
          if mood r \<noteq> [] then v\<lparr>activeMood := mood r, moodColor := color_for_mock (mood r)\<rparr>
          else v)"

text \<open>
  \<^verbatim>\<open>analyze\<close> of the mock page (lines 398-424): a timer of 1500 ms instead of a
  request, then the canned answer at index \<^verbatim>\<open>Math.floor(Math.random() * 5)\<close>;
  \<open>u\<close> is what \<^verbatim>\<open>Math.random()\<close> returned. Nothing in the \<^verbatim>\<open>try\<close> block throws.
\<close>

definition analyze_begin_mock :: "mock_view \<Rightarrow> mock_view \<times> cmd list" where
  "analyze_begin_mock v = (v\<lparr>loading := True, error := [], result := None\<rparr>, [SetTimeout 1500])"

definition randomResponse :: "real \<Rightarrow> PredictionResult option" where
  "randomResponse u =
     (let i = \<lfloor>u * real (length mockResponses)\<rfloor>
      in if 0 \<le> i \<and> i < int (length mockResponses) then Some (mockResponses ! nat i) else None)"

definition analyze_settle_mock :: "real \<Rightarrow> mock_view \<Rightarrow> mock_view" where
  "analyze_settle_mock u v = v\<lparr>result := randomResponse u, loading := False\<rparr>"

text \<open>
  The mock page as a machine: typing, a key, the submit button, "Try another analysis"
  (rendered with a result, line 543), a sample chip (rendered with no result and not
  loading, line 600) and the timer firing.
\<close>

datatype mock_event =
    MChange string
  | MKeyDown string bool
  | MClickAnalyze
  | MClickTryAnother
  | MClickSample string
  | MTimeout real

record mock_page =
  mui :: mock_view
  timers :: nat

definition rendered_mock :: "mock_view \<Rightarrow> mock_view \<Rightarrow> mock_view" where
  "rendered_mock before after = (if result after = result before then after else useEffect_mock after)"

fun react_mock :: "mock_event \<Rightarrow> mock_page \<Rightarrow> mock_view \<times> cmd list" where
  "react_mock (MChange t) p =
     (if loading (mui p) then (mui p, []) else ((mui p)\<lparr>input_text := t\<rparr>, []))"
| "react_mock (MKeyDown key shiftKey) p =
     (if loading (mui p) then (mui p, []) else handleKeyDown analyze_begin_mock key shiftKey (mui p))"
| "react_mock MClickAnalyze p =
     (if loading (mui p) \<or> trim (input_text (mui p)) = [] then (mui p, [])
      else analyze_begin_mock (mui p))"
| "react_mock MClickTryAnother p =
     (if result (mui p) \<noteq> None then ((mui p)\<lparr>result := None\<rparr>, []) else (mui p, []))"
| "react_mock (MClickSample m) p =
     (if result (mui p) = None \<and> \<not> loading (mui p) \<and> m \<in> set sample_moods
      then ((mui p)\<lparr>input_text := ''I'' @ [CHR 0x27] @ ''m feeling '' @ m @ '' today'',
                    activeMood := m, moodColor := color_for_mock m\<rparr>, [])
      else (mui p, []))"
| "react_mock (MTimeout u) p =
     (if timers p = 0 then (mui p, []) else (analyze_settle_mock u (mui p), []))"

fun fired :: "mock_event \<Rightarrow> nat" where
  "fired (MTimeout u) = 1"
| "fired e = 0"

fun timeouts :: "cmd list \<Rightarrow> nat" where
  "timeouts [] = 0"
| "timeouts (SetTimeout ms # cs) = Suc (timeouts cs)"
| "timeouts (c # cs) = timeouts cs"

definition step_mock :: "mock_event \<Rightarrow> mock_page \<Rightarrow> mock_page" where
  "step_mock e p =
     \<lparr>mui = rendered_mock (mui p) (fst (react_mock e p)),
      timers = timers p - fired e + timeouts (snd (react_mock e p))\<rparr>"

subsection \<open>A reference engine\<close>

text \<open>
  The theorems below hold for every \<^typ>\<open>engine\<close>. To run the page on concrete
  inputs, here is one that follows ECMAScript: \<^verbatim>\<open>parseFloat\<close> skips leading white
  space and reads the longest prefix that is a decimal literal (sign, digits, fraction,
  exponent, or \<^verbatim>\<open>Infinity\<close>); the messages are those of V8. The value of a literal
  is not rounded.
\<close>

definition is_digit :: "char \<Rightarrow> bool" where
  "is_digit c \<longleftrightarrow> 48 \<le> (of_char c :: nat) \<and> (of_char c :: nat) \<le> 57"

definition digits_value :: "string \<Rightarrow> nat" where
  "digits_value ds = foldl (\<lambda>a c. 10 * a + ((of_char c :: nat) - 48)) 0 ds"

definition exponent_of :: "string \<Rightarrow> int" where
  "exponent_of s =
     (case s of
        [] \<Rightarrow> 0
      | c # t \<Rightarrow>
          if c = CHR ''e'' \<or> c = CHR ''E'' then
            (case t of
               [] \<Rightarrow> 0
             | d # u \<Rightarrow>
                 if d = CHR ''-'' then - int (digits_value (takeWhile is_digit u))
                 else if d = CHR ''+'' then int (digits_value (takeWhile is_digit u))
                 else int (digits_value (takeWhile is_digit t)))
          else 0)"

definition scale10 :: "real \<Rightarrow> int \<Rightarrow> real" where
  "scale10 x k = (if 0 \<le> k then x * 10 ^ nat k else x / 10 ^ nat (- k))"

definition parse_unsigned :: "string \<Rightarrow> jsnum" where
  "parse_unsigned s =
     (if take 8 s = ''Infinity'' then PosInf
      else
        (let ip = takeWhile is_digit s;
             r1 = dropWhile is_digit s;
             fp = (case r1 of [] \<Rightarrow> [] | c # t \<Rightarrow> if c = CHR ''.'' then takeWhile is_digit t else []);
             r2 = (case r1 of [] \<Rightarrow> [] | c # t \<Rightarrow> if c = CHR ''.'' then dropWhile is_digit t else r1)
         in if ip = [] \<and> fp = [] then NaN
            else Fin (scale10 (real (digits_value (ip @ fp)) / 10 ^ length fp) (exponent_of r2))))"

fun negate :: "jsnum \<Rightarrow> jsnum" where
  "negate NaN = NaN"
| "negate NegInf = PosInf"
| "negate (Fin x) = Fin (- x)"
| "negate PosInf = NegInf"

definition parseFloat_string :: "string \<Rightarrow> jsnum" where
  "parseFloat_string s =
     (case trimStart s of
        [] \<Rightarrow> NaN
      | c # t \<Rightarrow>
          if c = CHR ''-'' then negate (parse_unsigned t)
          else if c = CHR ''+'' then parse_unsigned t
          else parse_unsigned (c # t))"

text \<open>
  Converting a parsed value to a string throws when an object in it has an own property
  \<^verbatim>\<open>toString\<close> (it is not callable, and \<^verbatim>\<open>valueOf\<close> gives no primitive).
  Otherwise an array prints its elements separated by commas, so the literal read is
  that of its first element; \<^verbatim>\<open>null\<close>, booleans and objects print no literal; a
  number prints a literal that reads back as itself.
\<close>

fun toString_throws :: "json \<Rightarrow> bool" where
  "toString_throws (JObj kvs) = (''toString'' \<in> fst ` set kvs)"
| "toString_throws (JArr xs) = (\<exists>x \<in> set xs. toString_throws x)"
| "toString_throws v = False"

fun parseFloat_printed :: "json \<Rightarrow> jsnum" where
  "parseFloat_printed JNull = NaN"
| "parseFloat_printed (JBool b) = NaN"
| "parseFloat_printed (JNum x) = x"
| "parseFloat_printed (JStr s) = parseFloat_string s"
| "parseFloat_printed (JArr []) = NaN"
| "parseFloat_printed (JArr (x # xs)) = parseFloat_printed x"
| "parseFloat_printed (JObj kvs) = NaN"

definition v8 :: engine where
  "v8 =
     \<lparr>parseFloat = (\<lambda>v. if toString_throws v
                          then Inl (ErrorObj ''Cannot convert object to primitive value'')
                          else Inr (parseFloat_printed v)),
      null_read_msg =
        ''Cannot read properties of null (reading '' @ [CHR 0x27] @ ''mood'' @ [CHR 0x27] @ '')'',
      not_callable_msg = ''data.mood.toLowerCase is not a function''\<rparr>"

definition mock_page0 :: mock_page where
  "mock_page0 = \<lparr>mui = initial_mock, timers = 0\<rparr>"

subsection \<open>Sample responses\<close>

text \<open>
  The two answers the backend is documented to give, an answer whose label has a capital,
  an empty object, a failure with a plain-text body, and answers that do not have the
  documented shape.
\<close>

definition positive_response :: response where
  \<open>positive_response =
     \<lparr>status = 200, statusText = ''OK'',
      body_text = Inr ''{"mood":"Positive","prediction":4}'',
      body_json = Inr (JObj [(''mood'', JStr ''Positive''), (''prediction'', JNum (Fin 4))])\<rparr>\<close>

definition score_response :: response where
  \<open>score_response =
     \<lparr>status = 200, statusText = ''OK'',
      body_text = Inr ''{"mood":"happy","score":0.9}'',
      body_json = Inr (JObj [(''mood'', JStr ''happy''), (''score'', JNum (Fin (9 / 10)))])\<rparr>\<close>

definition capital_response :: response where
  \<open>capital_response =
     \<lparr>status = 200, statusText = ''OK'',
      body_text = Inr ''{"mood":"Happy","score":0.9}'',
      body_json = Inr (JObj [(''mood'', JStr ''Happy''), (''score'', JNum (Fin (9 / 10)))])\<rparr>\<close>

definition empty_response :: response where
  \<open>empty_response =
     \<lparr>status = 200, statusText = ''OK'', body_text = Inr ''{}'', body_json = Inr (JObj [])\<rparr>\<close>

definition failure_response :: response where
  \<open>failure_response =
     \<lparr>status = 500, statusText = ''Internal Server Error'',
      body_text = Inr ''model not loaded'',
      body_json = Inl (ErrorObj ''Unexpected token m in JSON at position 0'')\<rparr>\<close>

definition null_response :: response where
  \<open>null_response =
     \<lparr>status = 200, statusText = ''OK'', body_text = Inr ''null'', body_json = Inr JNull\<rparr>\<close>

definition text_prediction_response :: response where
  \<open>text_prediction_response =
     \<lparr>status = 200, statusText = ''OK'',
      body_text = Inr ''{"mood":"happy","prediction":"abc"}'',
      body_json = Inr (JObj [(''mood'', JStr ''happy''), (''prediction'', JStr ''abc'')])\<rparr>\<close>

definition object_prediction_response :: response where
  \<open>object_prediction_response =
     \<lparr>status = 200, statusText = ''OK'',
      body_text = Inr ''{"mood":"happy","prediction":{"toString":1}}'',
      body_json = Inr (JObj [(''mood'', JStr ''happy''),
                             (''prediction'', JObj [(''toString'', JNum (Fin 1))])])\<rparr>\<close>

definition number_mood_response :: response where
  \<open>number_mood_response =
     \<lparr>status = 200, statusText = ''OK'',
      body_text = Inr ''{"mood":5,"prediction":2}'',
      body_json = Inr (JObj [(''mood'', JNum (Fin 5)), (''prediction'', JNum (Fin 2))])\<rparr>\<close>

text \<open>A failure whose body cannot be read.\<close>

definition unread_response :: response where
  \<open>unread_response =
     \<lparr>status = 502, statusText = ''Bad Gateway'',
      body_text = Inl (ErrorObj ''network error''),
      body_json = Inl (ErrorObj ''network error'')\<rparr>\<close>

subsection \<open>Two predicates for the statements\<close>

text \<open>Whether a property read gave a string, and whether a string ends with another.\<close>

fun is_string :: "json option \<Rightarrow> bool" where
  "is_string (Some (JStr s)) = True"
| "is_string v = False"

definition ends_with :: "string \<Rightarrow> string \<Rightarrow> bool" where
  "ends_with s t \<longleftrightarrow> length t \<le> length s \<and> drop (length s - length t) s = t"

subsection \<open>The invariant of the live page\<close>

text \<open>
  At most one call is awaiting its answer, exactly while \<open>loading\<close> is set; while
  loading both cells are clear; and never are both cells set.
\<close>

definition page_inv :: "page \<Rightarrow> bool" where
  "page_inv p \<longleftrightarrow>
     awaiting p \<le> 1 \<and> (loading (ui p) \<longleftrightarrow> awaiting p = 1) \<and>
     (loading (ui p) \<longrightarrow> result (ui p) = None \<and> error (ui p) = []) \<and>
     (result (ui p) = None \<or> error (ui p) = [])"

section \<open>Properties\<close>

subsection \<open>Strings\<close>

lemma dropWhile_Nil_iff: "dropWhile P xs = [] \<longleftrightarrow> (\<forall>x \<in> set xs. P x)"
  by (induction xs) auto

lemma trim_Nil_iff: "trim s = [] \<longleftrightarrow> (\<forall>c \<in> set s. is_ws c)"
proof
  assume "trim s = []"
  then have all: "\<forall>c \<in> set (dropWhile is_ws s). is_ws c"
    by (simp add: trim_def dropWhile_Nil_iff)
  have "dropWhile is_ws s = []"
  proof (cases "dropWhile is_ws s")
    case Nil
    then show ?thesis .
  next
    case (Cons x xs)
    then have "\<not> is_ws x"
      using hd_dropWhile [of is_ws s] by simp
    moreover have "is_ws x"
      using all Cons by simp
    ultimately show ?thesis by simp
  qed
  then show "\<forall>c \<in> set s. is_ws c"
    by (simp add: dropWhile_Nil_iff)
next
  assume "\<forall>c \<in> set s. is_ws c"
  then have h: "dropWhile is_ws s = []"
    by (simp add: dropWhile_Nil_iff)
  show "trim s = []"
    by (simp add: trim_def h)
qed

subsection \<open>Submission is gated on the trimmed text\<close>

lemma fetches_handleKeyDown_blank:
  "trim (input_text v) = [] \<Longrightarrow> fetches (snd (handleKeyDown start key shiftKey v)) = []"
  by (simp add: handleKeyDown_def)

lemma react_blank_no_fetch:
  "trim (input_text (ui p)) = [] \<Longrightarrow> fetches (snd (react eng e p)) = []"
  by (cases e) (simp_all add: fetches_handleKeyDown_blank resetForm_def)

text \<open>
  C4. In a state of the live page whose text is empty or made of white space only, no
  event posts to the prediction endpoint: whatever the user does (a key, a click on any
  button, typing is a different state), the list of texts sent stays as it is and no
  call is added to those awaiting an answer.
\<close>

theorem blank_text_never_posts:
  assumes "\<forall>c \<in> set (input_text (ui p)). is_ws c"
  shows "sent (step eng e p) = sent p \<and> awaiting (step eng e p) \<le> awaiting p"
proof -
  have "trim (input_text (ui p)) = []"
    using assms by (simp add: trim_Nil_iff)
  then have "fetches (snd (react eng e p)) = []"
    by (rule react_blank_no_fetch)
  then show ?thesis
    by (simp add: step_def)
qed

theorem blank_text_never_posts_witness:
  "list_all is_ws (input_text (ui (step v8 (Change [CHR 0x20, CHR 0x09, CHR 0x0A]) page0)))
   \<and> sent (step v8 ClickPredict (step v8 (Change [CHR 0x20, CHR 0x09, CHR 0x0A]) page0)) = []
   \<and> sent (step v8 (KeyDown ''Enter'' False) (step v8 (Change [CHR 0x20, CHR 0x09, CHR 0x0A]) page0)) = []"
proof -
  let ?p = "step v8 (Change [CHR 0x20, CHR 0x09, CHR 0x0A]) page0"
  have typed: "input_text (ui ?p) = [CHR 0x20, CHR 0x09, CHR 0x0A]"
    by (simp add: step_def page0_def initial_def rendered_def)
  have blank: "\<forall>c \<in> set (input_text (ui ?p)). is_ws c"
    by (simp add: typed is_ws_def)
  have s0: "sent ?p = []"
    by (simp add: step_def page0_def initial_def)
  show ?thesis
    using blank blank_text_never_posts [OF blank, of v8 ClickPredict]
      blank_text_never_posts [OF blank, of v8 "KeyDown ''Enter'' False"] s0
    by (simp add: list_all_iff)
qed

text \<open>
  C5. Enter without Shift, with a trimmed text that is not empty and not loading, calls
  the page's \<^verbatim>\<open>analyze\<close> once: the handler returns what one call returns, after
  \<^verbatim>\<open>preventDefault\<close>; in the live page one request goes out, carrying the text.
  With Shift held, whatever the key, the handler does nothing.
\<close>

theorem enter_submits_once:
  "(trim (input_text v) \<noteq> [] \<and> \<not> loading v \<longrightarrow>
      handleKeyDown start ''Enter'' False v = (fst (start v), PreventDefault # snd (start v))
      \<and> fst (handleKeyDown analyze_begin ''Enter'' False v) = fst (analyze_begin v)
      \<and> fetches (snd (handleKeyDown analyze_begin ''Enter'' False v)) = [input_text v])
   \<and> (trim (input_text (ui p)) \<noteq> [] \<and> \<not> loading (ui p) \<longrightarrow>
      sent (step eng (KeyDown ''Enter'' False) p) = sent p @ [input_text (ui p)]
      \<and> awaiting (step eng (KeyDown ''Enter'' False) p) = awaiting p + 1)
   \<and> handleKeyDown start key True v = (v, [])
   \<and> sent (step eng (KeyDown key True) p) = sent p
   \<and> ui (step eng (KeyDown key True) p) = ui p"
  by (simp add: handleKeyDown_def analyze_begin_def step_def rendered_def)

theorem enter_submits_once_witness:
  "trim ''great day'' \<noteq> []
   \<and> \<not> loading (ui (step v8 (Change ''great day'') page0))
   \<and> sent (step v8 (KeyDown ''Enter'' False) (step v8 (Change ''great day'') page0)) = [''great day'']
   \<and> awaiting (step v8 (KeyDown ''Enter'' False) (step v8 (Change ''great day'') page0)) = 1
   \<and> sent (step v8 (KeyDown ''Enter'' True) (step v8 (Change ''great day'') page0)) = []"
proof -
  let ?p = "step v8 (Change ''great day'') page0"
  have typed: "input_text (ui ?p) = ''great day''" "\<not> loading (ui ?p)" "sent ?p = []" "awaiting ?p = 0"
    by (simp_all add: step_def page0_def initial_def rendered_def)
  have nonblank: "trim ''great day'' \<noteq> []"
    by (simp add: trim_def is_ws_def)
  show ?thesis
    using enter_submits_once [of "ui ?p" analyze_begin ?p v8 "''Enter''"] typed nonblank
    by simp
qed

subsection \<open>The invariant holds on every run\<close>

lemma page_inv_page0: "page_inv page0"
  by (simp add: page_inv_def page0_def initial_def)

lemma useEffect_result_fields [simp]:
  "result (useEffect_result v) = result v"
  "error (useEffect_result v) = error v"
  "loading (useEffect_result v) = loading v"
  "input_text (useEffect_result v) = input_text v"
  by (simp_all add: useEffect_result_def split: option.splits)

lemma rendered_fields [simp]:
  "result (rendered u v) = result v"
  "error (rendered u v) = error v"
  "loading (rendered u v) = loading v"
  "input_text (rendered u v) = input_text v"
  by (simp_all add: rendered_def)

lemma analyze_settle_fields:
  "loading (analyze_settle eng outcome v) = False"
  "result v = None \<Longrightarrow> error v = [] \<Longrightarrow>
     result (analyze_settle eng outcome v) = None \<or> error (analyze_settle eng outcome v) = []"
  by (simp_all add: analyze_settle_def split: sum.splits)

lemma page_inv_step: "page_inv p \<Longrightarrow> page_inv (step eng e p)"
proof (cases e)
  case (Change t)
  assume "page_inv p" then show ?thesis using Change
    by (auto simp add: page_inv_def step_def)
next
  case (KeyDown key shiftKey)
  assume "page_inv p" then show ?thesis using KeyDown
    by (auto simp add: page_inv_def step_def handleKeyDown_def analyze_begin_def)
next
  case ClickPredict
  assume "page_inv p" then show ?thesis using ClickPredict
    by (auto simp add: page_inv_def step_def analyze_begin_def)
next
  case ClickTryAgain
  assume "page_inv p" then show ?thesis using ClickTryAgain
    by (auto simp add: page_inv_def step_def resetForm_def)
next
  case ClickAnalyzeAnother
  assume "page_inv p" then show ?thesis using ClickAnalyzeAnother
    by (auto simp add: page_inv_def step_def resetForm_def)
next
  case (Settle outcome)
  assume "page_inv p" then show ?thesis
    using Settle analyze_settle_fields [where v = "ui p" and eng = eng and outcome = outcome]
    by (auto simp add: page_inv_def step_def)
qed

lemma page_inv_run: "page_inv (run eng es)"
proof (induction es rule: rev_induct)
  case Nil
  show ?case by (simp add: run_def page_inv_page0)
next
  case (snoc e es)
  then show ?case by (simp add: run_def page_inv_step)
qed

subsection \<open>Three runs of the live page\<close>

lemma run_success_result:
  "result (ui (run v8 [Change ''great day'', ClickPredict, Settle (Resolved positive_response)])) =
     Some \<lparr>mood = ''positive'', score = Fin 1\<rparr>"
  by code_simp

lemma run_failure_error:
  "error (ui (run v8 [Change ''great day'', ClickPredict, Settle (Resolved failure_response)])) =
     ''Backend error: 500 - model not loaded''"
  by code_simp

lemma run_pending_awaiting:
  "awaiting (run v8 [Change ''great day'', ClickPredict]) = 1"
  by code_simp

subsection \<open>Result and error\<close>

text \<open>
  C3. In every state the live page reaches, a result and an error are never both set:
  with a result the error string is empty, with an error the result is null. A call of
  \<^verbatim>\<open>analyze\<close> clears both cells before its \<^verbatim>\<open>await\<close>, and they stay clear
  for as long as the call awaits its answer, so the outcome is written onto cleared
  cells.
\<close>

theorem result_and_error_exclusive:
  "(result (ui (run eng es)) \<noteq> None \<longrightarrow> error (ui (run eng es)) = [])
   \<and> (error (ui (run eng es)) \<noteq> [] \<longrightarrow> result (ui (run eng es)) = None)
   \<and> (0 < awaiting (run eng es) \<longrightarrow>
        result (ui (run eng es)) = None \<and> error (ui (run eng es)) = [])
   \<and> result (fst (analyze_begin v)) = None \<and> error (fst (analyze_begin v)) = []"
  using page_inv_run [of eng es] by (auto simp add: page_inv_def analyze_begin_def)

theorem result_and_error_exclusive_witness:
  "result (ui (run v8 [Change ''great day'', ClickPredict, Settle (Resolved positive_response)])) =
     Some \<lparr>mood = ''positive'', score = Fin 1\<rparr>
   \<and> error (ui (run v8 [Change ''great day'', ClickPredict, Settle (Resolved positive_response)])) = []
   \<and> error (ui (run v8 [Change ''great day'', ClickPredict, Settle (Resolved failure_response)])) =
     ''Backend error: 500 - model not loaded''
   \<and> result (ui (run v8 [Change ''great day'', ClickPredict, Settle (Resolved failure_response)])) = None
   \<and> awaiting (run v8 [Change ''great day'', ClickPredict]) = 1
   \<and> result (ui (run v8 [Change ''great day'', ClickPredict])) = None
   \<and> error (ui (run v8 [Change ''great day'', ClickPredict])) = []"
  using
    result_and_error_exclusive
      [of v8 "[Change ''great day'', ClickPredict, Settle (Resolved positive_response)]"
        "initial :: PredictionResult view"]
    result_and_error_exclusive
      [of v8 "[Change ''great day'', ClickPredict, Settle (Resolved failure_response)]"
        "initial :: PredictionResult view"]
    result_and_error_exclusive
      [of v8 "[Change ''great day'', ClickPredict]" "initial :: PredictionResult view"]
  by (simp add: run_success_result run_failure_error run_pending_awaiting)

subsection \<open>Loading ends with the call\<close>




subsection \<open>Reset\<close>




subsection \<open>The background gradient\<close>

lemma rendered_moodColor:
  "moodColor (rendered u v) \<noteq> moodColor v \<Longrightarrow> \<exists>r. result v = Some r \<and> result u \<noteq> Some r"
  by (auto simp add: rendered_def useEffect_result_def split: if_splits option.splits)

lemma react_moodColor: "moodColor (fst (react eng e p)) = moodColor (ui p)"
  by (cases e)
    (simp_all add: handleKeyDown_def analyze_begin_def resetForm_def analyze_settle_def
      split: sum.splits)

lemma react_result:
  "result (fst (react eng e p)) = Some r \<Longrightarrow> result (ui p) \<noteq> Some r \<Longrightarrow> \<exists>outcome. e = Settle outcome"
  by (cases e)
    (auto simp add: handleKeyDown_def analyze_begin_def resetForm_def split: if_splits)

lemma rendered_mock_moodColor:
  "moodColor (rendered_mock u v) \<noteq> moodColor v \<Longrightarrow> \<exists>r. result v = Some r \<and> result u \<noteq> Some r"
  by (auto simp add: rendered_mock_def useEffect_mock_def split: if_splits option.splits)

lemma react_mock_moodColor:
  "moodColor (fst (react_mock e p)) \<noteq> moodColor (mui p) \<Longrightarrow>
     \<exists>m. e = MClickSample m \<and> m \<in> set sample_moods"
  by (cases e)
    (auto simp add: handleKeyDown_def analyze_begin_mock_def analyze_settle_mock_def
      split: if_splits)

lemma react_mock_result:
  "result (fst (react_mock e p)) = Some r \<Longrightarrow> result (mui p) \<noteq> Some r \<Longrightarrow> \<exists>u. e = MTimeout u"
  by (cases e)
    (auto simp add: handleKeyDown_def analyze_begin_mock_def split: if_splits)

text \<open>
  C10. \<^verbatim>\<open>resetForm\<close> does not touch \<open>moodColor\<close>: after a reset the gradient of
  the last analysed mood stays, it does not go back to the initial gradient. In the live
  page a step changes the gradient only when an awaited call settles and stores a new
  result; in the mock page only when the timer fires and stores a new result, or on a
  click on a sample chip.
\<close>

theorem reset_keeps_moodColor:
  fixes v :: "('r, 'z) view_scheme"
  shows
  "moodColor (fst (resetForm ref v)) = moodColor v
   \<and> moodColor (ui (step eng ClickTryAgain p)) = moodColor (ui p)
   \<and> moodColor (ui (step eng ClickAnalyzeAnother p)) = moodColor (ui p)
   \<and> (moodColor (ui (step eng e p)) \<noteq> moodColor (ui p) \<longrightarrow>
        (\<exists>outcome r. e = Settle outcome \<and> result (ui (step eng e p)) = Some r
                      \<and> result (ui p) \<noteq> Some r))
   \<and> (moodColor (mui (step_mock me mp)) \<noteq> moodColor (mui mp) \<longrightarrow>
        (\<exists>u r. me = MTimeout u \<and> result (mui (step_mock me mp)) = Some r
                \<and> result (mui mp) \<noteq> Some r)
        \<or> (\<exists>m. me = MClickSample m \<and> m \<in> set sample_moods))"
proof -
  have reset: "moodColor (fst (resetForm ref v)) = moodColor v"
    by (simp add: resetForm_def)
  have live: "\<exists>outcome r. e = Settle outcome \<and> result (ui (step eng e p)) = Some r
                \<and> result (ui p) \<noteq> Some r"
    if changed: "moodColor (ui (step eng e p)) \<noteq> moodColor (ui p)" for e
  proof -
    from changed have "moodColor (rendered (ui p) (fst (react eng e p))) \<noteq> moodColor (fst (react eng e p))"
      by (simp add: step_def react_moodColor)
    then obtain r where r: "result (fst (react eng e p)) = Some r" "result (ui p) \<noteq> Some r"
      using rendered_moodColor by blast
    then obtain outcome where "e = Settle outcome"
      using react_result by blast
    moreover have "result (ui (step eng e p)) = Some r"
      using r by (simp add: step_def rendered_def useEffect_result_def)
    ultimately show ?thesis using r by blast
  qed
  have try_again: "moodColor (ui (step eng ClickTryAgain p)) = moodColor (ui p)"
    using live [of ClickTryAgain] by blast
  have another: "moodColor (ui (step eng ClickAnalyzeAnother p)) = moodColor (ui p)"
    using live [of ClickAnalyzeAnother] by blast
  have mock: "(\<exists>u r. me = MTimeout u \<and> result (mui (step_mock me mp)) = Some r
                \<and> result (mui mp) \<noteq> Some r)
        \<or> (\<exists>m. me = MClickSample m \<and> m \<in> set sample_moods)"
    if changed: "moodColor (mui (step_mock me mp)) \<noteq> moodColor (mui mp)"
  proof (cases "moodColor (fst (react_mock me mp)) = moodColor (mui mp)")
    case True
    with changed have "moodColor (rendered_mock (mui mp) (fst (react_mock me mp)))
        \<noteq> moodColor (fst (react_mock me mp))"
      by (simp add: step_mock_def)
    then obtain r where r: "result (fst (react_mock me mp)) = Some r" "result (mui mp) \<noteq> Some r"
      using rendered_mock_moodColor by blast
    then obtain u where "me = MTimeout u"
      using react_mock_result by blast
    moreover have "result (mui (step_mock me mp)) = Some r"
      using r by (simp add: step_mock_def rendered_mock_def useEffect_mock_def)
    ultimately show ?thesis using r by blast
  next
    case False
    then show ?thesis using react_mock_moodColor by blast
  qed
  show ?thesis
    using reset try_again another live mock by blast
qed

lemma run_success_moodColor:
  "moodColor (ui (step v8 (Settle (Resolved positive_response)) (run v8 [Change ''great day'', ClickPredict]))) =
     ''from-green-300 to-green-500''"
  by code_simp

lemma run_pending_moodColor:
  "moodColor (ui (run v8 [Change ''great day'', ClickPredict])) = ''from-blue-100 to-purple-100''"
  by code_simp

lemma sample_click_moodColor:
  "moodColor (mui (step_mock (MClickSample ''happy'') mock_page0)) = ''from-yellow-300 to-yellow-500''"
  by code_simp

lemma mock_page0_moodColor:
  "moodColor (mui mock_page0) = ''from-blue-100 to-purple-100''"
  by code_simp

theorem reset_keeps_moodColor_witness:
  "moodColor (ui (step v8 (Settle (Resolved positive_response)) (run v8 [Change ''great day'', ClickPredict])))
     = ''from-green-300 to-green-500''
   \<and> moodColor (ui (run v8 [Change ''great day'', ClickPredict])) = ''from-blue-100 to-purple-100''
   \<and> moodColor (initial :: PredictionResult view) = ''from-blue-100 to-purple-100''
   \<and> (\<exists>r. result (ui (step v8 (Settle (Resolved positive_response))
              (run v8 [Change ''great day'', ClickPredict]))) = Some r)
   \<and> moodColor (ui (step v8 ClickAnalyzeAnother
        (step v8 (Settle (Resolved positive_response)) (run v8 [Change ''great day'', ClickPredict]))))
     = ''from-green-300 to-green-500''
   \<and> moodColor (mui (step_mock (MClickSample ''happy'') mock_page0)) = ''from-yellow-300 to-yellow-500''
   \<and> moodColor (mui mock_page0) = ''from-blue-100 to-purple-100''
   \<and> ''happy'' \<in> set sample_moods"
  using
    reset_keeps_moodColor
      [of True "initial :: PredictionResult view" v8
        "step v8 (Settle (Resolved positive_response)) (run v8 [Change ''great day'', ClickPredict])"
        "Settle (Resolved positive_response)" "MClickSample ''happy''" mock_page0]
    reset_keeps_moodColor
      [of True "initial :: PredictionResult view" v8
        "run v8 [Change ''great day'', ClickPredict]"
        "Settle (Resolved positive_response)" "MClickSample ''happy''" mock_page0]
  by (auto simp add: run_success_moodColor run_pending_moodColor sample_click_moodColor
        mock_page0_moodColor initial_def)

subsection \<open>The normaliser\<close>


lemma analyze_ok:
  "ok res \<Longrightarrow> body_json res = Inr data \<Longrightarrow>
   analyze eng (Resolved res) v =
     useEffect_result
       ((case normalize_response eng data of
           Inr r \<Rightarrow> (fst (analyze_begin v))\<lparr>result := Some r\<rparr>
         | Inl err \<Rightarrow> (fst (analyze_begin v))\<lparr>error := catch_message err\<rparr>)\<lparr>loading := False\<rparr>)"
  by (simp add: analyze_def analyze_settle_def)

lemma analyze_ok_Inr:
  "ok res \<Longrightarrow> body_json res = Inr data \<Longrightarrow> normalize_response eng data = Inr r \<Longrightarrow>
   result (analyze eng (Resolved res) v) = Some r \<and> error (analyze eng (Resolved res) v) = []"
  by (simp add: analyze_ok analyze_begin_def)

lemma analyze_ok_Inl:
  "ok res \<Longrightarrow> body_json res = Inr data \<Longrightarrow> normalize_response eng data = Inl e \<Longrightarrow>
   result (analyze eng (Resolved res) v) = None \<and> error (analyze eng (Resolved res) v) = catch_message e"
  by (simp add: analyze_ok analyze_begin_def)



lemma sample_ok:
  "ok positive_response" "ok score_response" "ok capital_response" "ok empty_response"
  "ok null_response" "ok text_prediction_response" "ok object_prediction_response"
  "ok number_mood_response" "\<not> ok failure_response"
  by (simp_all add: ok_def positive_response_def score_response_def capital_response_def
      empty_response_def null_response_def text_prediction_response_def
      object_prediction_response_def number_mood_response_def failure_response_def)

lemma sample_json:
  "body_json positive_response =
     Inr (JObj [(''mood'', JStr ''Positive''), (''prediction'', JNum (Fin 4))])"
  "body_json score_response =
     Inr (JObj [(''mood'', JStr ''happy''), (''score'', JNum (Fin (9 / 10)))])"
  "body_json capital_response =
     Inr (JObj [(''mood'', JStr ''Happy''), (''score'', JNum (Fin (9 / 10)))])"
  "body_json empty_response = Inr (JObj [])"
  "body_json null_response = Inr JNull"
  "body_json text_prediction_response =
     Inr (JObj [(''mood'', JStr ''happy''), (''prediction'', JStr ''abc'')])"
  "body_json object_prediction_response =
     Inr (JObj [(''mood'', JStr ''happy''), (''prediction'', JObj [(''toString'', JNum (Fin 1))])])"
  "body_json number_mood_response =
     Inr (JObj [(''mood'', JNum (Fin 5)), (''prediction'', JNum (Fin 2))])"
  by (simp_all add: positive_response_def score_response_def capital_response_def
      empty_response_def null_response_def text_prediction_response_def
      object_prediction_response_def number_mood_response_def)

lemma v8_scores:
  "to_score v8 (JStr ''abc'') = Inr NaN"
  "to_score v8 (JObj [(''toString'', JNum (Fin 1))]) =
     Inl (ErrorObj ''Cannot convert object to primitive value'')"
  "to_score v8 (JNum (Fin 2)) = Inr (Fin (1 / 2))"
  "to_score v8 (JNum (Fin 4)) = Inr (Fin 1)"
  by code_simp+

lemma toLowerCase_Positive: "toLowerCase ''Positive'' = ''positive''"
  by code_simp


lemma normalize_cases:
  "normalize_response eng data =
     (if data = JNull then Inl (ErrorObj (null_read_msg eng))
      else if \<not> truthy (get_prop data ''mood'') \<or> get_prop data ''prediction'' = None
      then Inl (ErrorObj ''Unexpected response format from backend'')
      else (case to_score eng (the (get_prop data ''prediction'')) of
              Inl e \<Rightarrow> Inl e
            | Inr sc \<Rightarrow>
                if sc = NaN then Inl (ErrorObj ''Invalid prediction value'')
                else if is_string (get_prop data ''mood'')
                then (case get_prop data ''mood'' of
                        Some (JStr m) \<Rightarrow> Inr \<lparr>mood = toLowerCase m, score = sc\<rparr>
                      | _ \<Rightarrow> Inl (ErrorObj (not_callable_msg eng)))
                else Inl (ErrorObj (not_callable_msg eng))))"
  by (auto simp add: normalize_response_def isNaN_def split: option.splits sum.splits json.splits)

lemma analyze_settle_premium_ok:
  "ok res \<Longrightarrow> body_json res = Inr data \<Longrightarrow>
   result (analyze_settle_premium (Resolved res) (fst (analyze_begin w))) =
     (if data = JNull then None else Some data)
   \<and> error (analyze_settle_premium (Resolved res) (fst (analyze_begin w))) = []"
  by (simp add: analyze_settle_premium_def analyze_begin_def)

text \<open>
  C2, amended. In the live page, a body answered with a success status ends in the error
  state (result null, error set to the message thrown) in exactly these cases: the body
  is \<^verbatim>\<open>null\<close>; \<^verbatim>\<open>mood\<close> is missing or falsy, or \<^verbatim>\<open>prediction\<close> is
  missing (message "Unexpected response format from backend"); converting the prediction
  throws; the derived score is NaN (message "Invalid prediction value"); \<^verbatim>\<open>mood\<close>
  is truthy but not a string. In the one remaining case, a non-empty mood string and a
  prediction whose score is not NaN, no error is raised: the result is stored and the
  error stays empty. The premium page does not normalise: it stores any parsed body,
  with or without a mood, and sets no error.
\<close>

theorem normalization_error_cases:
  assumes "ok res" and "body_json res = Inr data"
  shows
  "(data = JNull \<longrightarrow>
      result (analyze eng (Resolved res) v) = None
      \<and> error (analyze eng (Resolved res) v) = null_read_msg eng)
   \<and> (data \<noteq> JNull
       \<and> (\<not> truthy (get_prop data ''mood'') \<or> get_prop data ''prediction'' = None) \<longrightarrow>
      result (analyze eng (Resolved res) v) = None
      \<and> error (analyze eng (Resolved res) v) = ''Unexpected response format from backend'')
   \<and> (truthy (get_prop data ''mood'') \<and> get_prop data ''prediction'' = Some pv
       \<and> to_score eng pv = Inl e \<longrightarrow>
      result (analyze eng (Resolved res) v) = None
      \<and> error (analyze eng (Resolved res) v) = catch_message e)
   \<and> (truthy (get_prop data ''mood'') \<and> get_prop data ''prediction'' = Some pv
       \<and> to_score eng pv = Inr NaN \<longrightarrow>
      result (analyze eng (Resolved res) v) = None
      \<and> error (analyze eng (Resolved res) v) = ''Invalid prediction value'')
   \<and> (truthy (get_prop data ''mood'') \<and> \<not> is_string (get_prop data ''mood'')
       \<and> get_prop data ''prediction'' = Some pv \<and> to_score eng pv = Inr sc \<and> sc \<noteq> NaN \<longrightarrow>
      result (analyze eng (Resolved res) v) = None
      \<and> error (analyze eng (Resolved res) v) = not_callable_msg eng)
   \<and> (get_prop data ''mood'' = Some (JStr m) \<and> m \<noteq> []
       \<and> get_prop data ''prediction'' = Some pv \<and> to_score eng pv = Inr sc \<and> sc \<noteq> NaN \<longrightarrow>
      result (analyze eng (Resolved res) v) = Some \<lparr>mood = toLowerCase m, score = sc\<rparr>
      \<and> error (analyze eng (Resolved res) v) = [])
   \<and> result (analyze_settle_premium (Resolved res) (fst (analyze_begin w))) =
        (if data = JNull then None else Some data)
   \<and> error (analyze_settle_premium (Resolved res) (fst (analyze_begin w))) = []"
proof -
  have not_null: "data \<noteq> JNull" if "truthy (get_prop data ''mood'')"
    using that by auto
  have c1: "result (analyze eng (Resolved res) v) = None
      \<and> error (analyze eng (Resolved res) v) = null_read_msg eng" if "data = JNull"
    using that analyze_ok_Inl [OF assms, of eng "ErrorObj (null_read_msg eng)" v]
    by (simp add: normalize_cases catch_message_def)
  have c2: "result (analyze eng (Resolved res) v) = None
      \<and> error (analyze eng (Resolved res) v) = ''Unexpected response format from backend''"
    if "data \<noteq> JNull" "\<not> truthy (get_prop data ''mood'') \<or> get_prop data ''prediction'' = None"
    using that analyze_ok_Inl [OF assms, of eng "ErrorObj ''Unexpected response format from backend''" v]
    by (simp add: normalize_cases catch_message_def)
  have c3: "result (analyze eng (Resolved res) v) = None
      \<and> error (analyze eng (Resolved res) v) = catch_message e"
    if "truthy (get_prop data ''mood'')" "get_prop data ''prediction'' = Some pv" "to_score eng pv = Inl e"
    using that not_null analyze_ok_Inl [OF assms, of eng e v]
    by (simp add: normalize_cases)
  have c4: "result (analyze eng (Resolved res) v) = None
      \<and> error (analyze eng (Resolved res) v) = ''Invalid prediction value''"
    if "truthy (get_prop data ''mood'')" "get_prop data ''prediction'' = Some pv" "to_score eng pv = Inr NaN"
    using that not_null analyze_ok_Inl [OF assms, of eng "ErrorObj ''Invalid prediction value''" v]
    by (simp add: normalize_cases catch_message_def)
  have c5: "result (analyze eng (Resolved res) v) = None
      \<and> error (analyze eng (Resolved res) v) = not_callable_msg eng"
    if "truthy (get_prop data ''mood'')" "\<not> is_string (get_prop data ''mood'')"
      "get_prop data ''prediction'' = Some pv" "to_score eng pv = Inr sc" "sc \<noteq> NaN"
    using that not_null analyze_ok_Inl [OF assms, of eng "ErrorObj (not_callable_msg eng)" v]
    by (simp add: normalize_cases catch_message_def)
  have c6: "result (analyze eng (Resolved res) v) = Some \<lparr>mood = toLowerCase m, score = sc\<rparr>
      \<and> error (analyze eng (Resolved res) v) = []"
    if "get_prop data ''mood'' = Some (JStr m)" "m \<noteq> []"
      "get_prop data ''prediction'' = Some pv" "to_score eng pv = Inr sc" "sc \<noteq> NaN"
  proof -
    have "data \<noteq> JNull" using that(1) by auto
    then show ?thesis
      using that analyze_ok_Inr [OF assms, of eng "\<lparr>mood = toLowerCase m, score = sc\<rparr>" v]
      by (simp add: normalize_cases)
  qed
  show ?thesis
    using c1 c2 c3 c4 c5 c6 analyze_settle_premium_ok [OF assms, of w] by blast
qed

theorem normalization_error_cases_witness:
  "error (analyze v8 (Resolved null_response) initial) = null_read_msg v8
   \<and> result (analyze v8 (Resolved null_response) initial) = None
   \<and> error (analyze v8 (Resolved empty_response) initial) = ''Unexpected response format from backend''
   \<and> result (analyze v8 (Resolved empty_response) initial) = None
   \<and> error (analyze v8 (Resolved object_prediction_response) initial) =
       ''Cannot convert object to primitive value''
   \<and> result (analyze v8 (Resolved object_prediction_response) initial) = None
   \<and> error (analyze v8 (Resolved text_prediction_response) initial) = ''Invalid prediction value''
   \<and> result (analyze v8 (Resolved text_prediction_response) initial) = None
   \<and> error (analyze v8 (Resolved number_mood_response) initial) = not_callable_msg v8
   \<and> result (analyze v8 (Resolved number_mood_response) initial) = None
   \<and> result (analyze v8 (Resolved positive_response) initial) =
       Some \<lparr>mood = ''positive'', score = Fin 1\<rparr>
   \<and> error (analyze v8 (Resolved positive_response) initial) = []
   \<and> result (analyze_settle_premium (Resolved empty_response) (fst (analyze_begin initial))) =
       Some (JObj [])"
proof -
  have c1: "error (analyze v8 (Resolved null_response) initial) = null_read_msg v8
      \<and> result (analyze v8 (Resolved null_response) initial) = None"
    using normalization_error_cases [OF sample_ok(5) sample_json(5), of v8 initial]
    by simp
  have c2: "error (analyze v8 (Resolved empty_response) initial) =
        ''Unexpected response format from backend''
      \<and> result (analyze v8 (Resolved empty_response) initial) = None
      \<and> result (analyze_settle_premium (Resolved empty_response) (fst (analyze_begin initial))) =
          Some (JObj [])"
    using normalization_error_cases [OF sample_ok(4) sample_json(4), of v8 initial _ _ _ _ initial]
    by simp
  have c3: "error (analyze v8 (Resolved object_prediction_response) initial) =
        ''Cannot convert object to primitive value''
      \<and> result (analyze v8 (Resolved object_prediction_response) initial) = None"
    using normalization_error_cases [OF sample_ok(7) sample_json(7), of v8 initial
        "JObj [(''toString'', JNum (Fin 1))]" "ErrorObj ''Cannot convert object to primitive value''"]
    by (simp add: v8_scores catch_message_def)
  have c4: "error (analyze v8 (Resolved text_prediction_response) initial) = ''Invalid prediction value''
      \<and> result (analyze v8 (Resolved text_prediction_response) initial) = None"
    using normalization_error_cases [OF sample_ok(6) sample_json(6), of v8 initial "JStr ''abc''"]
    by (simp add: v8_scores)
  have c5: "error (analyze v8 (Resolved number_mood_response) initial) = not_callable_msg v8
      \<and> result (analyze v8 (Resolved number_mood_response) initial) = None"
    using normalization_error_cases [OF sample_ok(8) sample_json(8), of v8 initial
        "JNum (Fin 2)" _ "Fin (1 / 2)"]
    by (simp add: v8_scores)
  have c6: "result (analyze v8 (Resolved positive_response) initial) =
        Some \<lparr>mood = ''positive'', score = Fin 1\<rparr>
      \<and> error (analyze v8 (Resolved positive_response) initial) = []"
    using normalization_error_cases [OF sample_ok(1) sample_json(1), of v8 initial
        "JNum (Fin 4)" _ "Fin 1" "''Positive''"]
    by (simp add: v8_scores toLowerCase_Positive)
  show ?thesis
    using c1 c2 c3 c4 c5 c6 by simp
qed

text \<open>
  C2 as stated fails. The live page answers the documented body
  \<^verbatim>\<open>{"mood":"happy","score":0.9}\<close> with the error "Unexpected response format from
  backend", though the mood is there and no score was derived; the premium page stores
  the body \<^verbatim>\<open>{}\<close>, which has no mood, as its result and raises no error.
\<close>

theorem normalization_error_counterexample:
  "get_prop (JObj [(''mood'', JStr ''happy''), (''score'', JNum (Fin (9 / 10)))]) ''mood'' =
     Some (JStr ''happy'')
   \<and> body_json score_response =
       Inr (JObj [(''mood'', JStr ''happy''), (''score'', JNum (Fin (9 / 10)))])
   \<and> result (analyze v8 (Resolved score_response) initial) = None
   \<and> error (analyze v8 (Resolved score_response) initial) = ''Unexpected response format from backend''
   \<and> get_prop (JObj []) ''mood'' = None
   \<and> body_json empty_response = Inr (JObj [])
   \<and> result (analyze_settle_premium (Resolved empty_response) (fst (analyze_begin initial))) =
       Some (JObj [])
   \<and> error (analyze_settle_premium (Resolved empty_response) (fst (analyze_begin initial))) = []"
  by code_simp












subsection \<open>A failure status\<close>

lemma ends_with_append: "ends_with (pre @ t) t"
  by (simp add: ends_with_def)

lemma analyze_not_ok:
  "\<not> ok res \<Longrightarrow>
   analyze eng (Resolved res) v =
     useEffect_result
       ((fst (analyze_begin v))
          \<lparr>error := catch_message
             (case body_text res of
                Inl e \<Rightarrow> e
              | Inr errorText \<Rightarrow>
                  ErrorObj (''Backend error: '' @ show_nat (status res) @ '' - '' @
                            (if errorText \<noteq> [] then errorText else statusText res))),
           loading := False\<rparr>)"
  by (simp add: analyze_def analyze_settle_def split: sum.splits)

text \<open>
  C6, amended. For a response whose status is not 2xx the result stays null in both
  pages. The live page shows "Backend error: ", the status, " - " and then the body
  text, or the status text when the body is empty; when the body cannot be read it shows
  the message of that failure. The premium page shows the fixed text "Something went
  wrong. Please try again." and never reads the body.
\<close>

theorem failure_status_error_message:
  assumes "\<not> ok res"
  shows
  "(body_text res = Inr b \<longrightarrow>
      error (analyze eng (Resolved res) v) =
        ''Backend error: '' @ show_nat (status res) @ '' - '' @ (if b \<noteq> [] then b else statusText res)
      \<and> ends_with (error (analyze eng (Resolved res) v)) b)
   \<and> (body_text res = Inl e \<longrightarrow> error (analyze eng (Resolved res) v) = catch_message e)
   \<and> result (analyze eng (Resolved res) v) = None
   \<and> error (analyze_settle_premium (Resolved res) (fst (analyze_begin w))) =
       ''Something went wrong. Please try again.''
   \<and> result (analyze_settle_premium (Resolved res) (fst (analyze_begin w))) = None"
proof -
  have live_text: "error (analyze eng (Resolved res) v) =
        ''Backend error: '' @ show_nat (status res) @ '' - '' @ (if b \<noteq> [] then b else statusText res)"
    if "body_text res = Inr b"
    using that by (simp add: analyze_not_ok [OF assms] catch_message_def)
  have live_suffix: "ends_with (error (analyze eng (Resolved res) v)) b" if "body_text res = Inr b"
  proof (cases "b = []")
    case True
    then show ?thesis by (simp add: ends_with_def)
  next
    case False
    have "ends_with ((''Backend error: '' @ show_nat (status res) @ '' - '') @ b) b"
      by (rule ends_with_append)
    then show ?thesis using False live_text [OF that] by simp
  qed
  have live_reject: "error (analyze eng (Resolved res) v) = catch_message e" if "body_text res = Inl e"
    using that by (simp add: analyze_not_ok [OF assms])
  have live_result: "result (analyze eng (Resolved res) v) = None"
    by (simp add: analyze_not_ok [OF assms] analyze_begin_def)
  have premium: "error (analyze_settle_premium (Resolved res) (fst (analyze_begin w))) =
       ''Something went wrong. Please try again.''
     \<and> result (analyze_settle_premium (Resolved res) (fst (analyze_begin w))) = None"
    using assms by (simp add: analyze_settle_premium_def analyze_begin_def)
  show ?thesis
    using live_text live_suffix live_reject live_result premium by blast
qed

lemma failure_text: "body_text failure_response = Inr ''model not loaded''"
  by (simp add: failure_response_def)

lemma unread_facts: "\<not> ok unread_response" "body_text unread_response = Inl (ErrorObj ''network error'')"
  by (simp_all add: unread_response_def ok_def)

lemma show_nat_500: "show_nat (status failure_response) = ''500''"
  by code_simp

theorem failure_status_error_message_witness:
  "\<not> ok failure_response
   \<and> body_text failure_response = Inr ''model not loaded''
   \<and> error (analyze v8 (Resolved failure_response) initial) = ''Backend error: 500 - model not loaded''
   \<and> ends_with (error (analyze v8 (Resolved failure_response) initial)) ''model not loaded''
   \<and> result (analyze v8 (Resolved failure_response) initial) = None
   \<and> body_text unread_response = Inl (ErrorObj ''network error'')
   \<and> error (analyze v8 (Resolved unread_response) initial) = ''network error''"
  using failure_status_error_message [OF sample_ok(9), of "''model not loaded''" v8 initial _ initial]
    failure_status_error_message [OF unread_facts(1), of _ v8 initial "ErrorObj ''network error''" initial]
    sample_ok(9)
  by (simp add: failure_text unread_facts show_nat_500 catch_message_def ends_with_def)

text \<open>
  C6 as stated fails: for a status 500 with the body "model not loaded" the premium
  page shows its fixed text, which does not end with the body.
\<close>

theorem failure_status_counterexample:
  "\<not> ok failure_response
   \<and> body_text failure_response = Inr ''model not loaded''
   \<and> error (analyze_settle_premium (Resolved failure_response) (fst (analyze_begin initial))) =
       ''Something went wrong. Please try again.''
   \<and> \<not> ends_with (error (analyze_settle_premium (Resolved failure_response) (fst (analyze_begin initial))))
         ''model not loaded''"
  by code_simp

end
